theory Spec2Isabelle
  imports Main "HOL-Library.AList"
begin

section \<open>Python values and exceptions\<close>

text \<open>
  The module \<^verbatim>\<open>openlineage/airflow/extractors/base.py\<close> is dynamically typed: a field of
  \<^verbatim>\<open>TaskMetadata\<close> and the operator an extractor is bound to hold whatever object the caller
  passes, whatever the annotations say. Values are therefore modelled as Python objects:
  \<^verbatim>\<open>None\<close>, strings, lists, dictionaries (in insertion order) and instances of a named class
  with their attributes (a \<^verbatim>\<open>Dataset\<close>, a facet, an Airflow operator).
\<close>

datatype pyval =
    PyNone
  | PyStr string
  | PyList "pyval list"
  | PyDict "(string \<times> pyval) list"
  | PyObject string "(string \<times> pyval) list"

text \<open>The exceptions the module can raise; \<open>OtherError\<close> is any exception of a subclass's own code.\<close>

datatype exn =
    TypeError
  | AttributeError
  | NotImplementedError
  | AssertionError
  | OtherError string

text \<open>\<^verbatim>\<open>x.__class__.__name__\<close>: the name of the runtime type of an object.\<close>

fun class_name :: "pyval \<Rightarrow> string" where
  "class_name PyNone = ''NoneType''"
| "class_name (PyStr s) = ''str''"
| "class_name (PyList xs) = ''list''"
| "class_name (PyDict kvs) = ''dict''"
| "class_name (PyObject c attrs) = c"


section \<open>TaskMetadata\<close>

text \<open>
  \<^verbatim>\<open>@attr.s class TaskMetadata\<close> declares five attributes in this order. \<^verbatim>\<open>name\<close> is a plain
  \<^verbatim>\<open>attr.ib()\<close>; the other four have a factory (\<^verbatim>\<open>list\<close>, \<^verbatim>\<open>list\<close>, \<^verbatim>\<open>dict\<close>, \<^verbatim>\<open>dict\<close>). None has a
  validator or a converter.
\<close>

record TaskMetadata =
  name :: pyval
  inputs :: pyval
  outputs :: pyval
  run_facets :: pyval
  job_facets :: pyval

definition TaskMetadata_params :: "string list" where
  "TaskMetadata_params = [''name'', ''inputs'', ''outputs'', ''run_facets'', ''job_facets'']"

text \<open>
  A call \<^verbatim>\<open>TaskMetadata(*args, **kwargs)\<close> binds its arguments as Python binds them for the
  signature \<^verbatim>\<open>(name, inputs=NOTHING, outputs=NOTHING, run_facets=NOTHING, job_facets=NOTHING)\<close>
  that attrs generates. Positional arguments go to the parameters in order; one too many
  is a \<^verbatim>\<open>TypeError\<close>.
\<close>

fun bind_positional :: "string list \<Rightarrow> pyval list \<Rightarrow> exn + (string \<times> pyval) list" where
  "bind_positional ps [] = Inr []"
| "bind_positional [] (a # as) = Inl TypeError"
| "bind_positional (p # ps) (a # as) =
     (case bind_positional ps as of
        Inl e \<Rightarrow> Inl e
      | Inr bound \<Rightarrow> Inr ((p, a) # bound))"

text \<open>
  A keyword argument must name a parameter that has no value yet: an unexpected keyword
  and a second value for a parameter are both a \<^verbatim>\<open>TypeError\<close>.
\<close>

fun bind_keywords ::
  "string list \<Rightarrow> (string \<times> pyval) list \<Rightarrow> (string \<times> pyval) list \<Rightarrow> exn + (string \<times> pyval) list"
where
  "bind_keywords ps bound [] = Inr bound"
| "bind_keywords ps bound ((k, v) # kws) =
     (if k \<notin> set ps \<or> k \<in> fst ` set bound then Inl TypeError
      else bind_keywords ps (bound @ [(k, v)]) kws)"

definition bind_arguments ::
  "string list \<Rightarrow> pyval list \<Rightarrow> (string \<times> pyval) list \<Rightarrow> exn + (string \<times> pyval) list"
where
  "bind_arguments ps args kwargs =
     (case bind_positional ps args of
        Inl e \<Rightarrow> Inl e
      | Inr bound \<Rightarrow> bind_keywords ps bound kwargs)"

text \<open>
  The generated \<^verbatim>\<open>__init__\<close>, on the bound arguments: \<^verbatim>\<open>name\<close> has no default, so a call
  without it is a \<^verbatim>\<open>TypeError\<close>; each other attribute is the value given, stored as it is,
  or what its factory returns (\<^verbatim>\<open>list()\<close>, \<^verbatim>\<open>dict()\<close>) when none is given.
\<close>

definition attr_or_factory :: "(string \<times> pyval) list \<Rightarrow> string \<Rightarrow> pyval \<Rightarrow> pyval" where
  "attr_or_factory bound p made =
     (case map_of bound p of None \<Rightarrow> made | Some v \<Rightarrow> v)"

definition TaskMetadata_init :: "(string \<times> pyval) list \<Rightarrow> exn + TaskMetadata" where
  "TaskMetadata_init bound =
     (case map_of bound ''name'' of
        None \<Rightarrow> Inl TypeError
      | Some n \<Rightarrow>
          Inr \<lparr> name = n,
                inputs = attr_or_factory bound ''inputs'' (PyList []),
                outputs = attr_or_factory bound ''outputs'' (PyList []),
                run_facets = attr_or_factory bound ''run_facets'' (PyDict []),
                job_facets = attr_or_factory bound ''job_facets'' (PyDict []) \<rparr>)"

definition TaskMetadata_new :: "pyval list \<Rightarrow> (string \<times> pyval) list \<Rightarrow> exn + TaskMetadata" where
  "TaskMetadata_new args kwargs =
     (case bind_arguments TaskMetadata_params args kwargs of
        Inl e \<Rightarrow> Inl e
      | Inr bound \<Rightarrow> TaskMetadata_init bound)"

text \<open>
  An attribute is supplied by a call when a positional argument reaches its parameter or
  a keyword names it; otherwise the call omits it.
\<close>

definition supplied :: "string \<Rightarrow> pyval list \<Rightarrow> (string \<times> pyval) list \<Rightarrow> bool" where
  "supplied p args kwargs \<longleftrightarrow>
     p \<in> set (take (length args) TaskMetadata_params) \<or> p \<in> fst ` set kwargs"

section \<open>BaseExtractor\<close>

text \<open>
  An extractor instance holds \<^verbatim>\<open>self.operator\<close>, the task object it is bound to, and
  whatever else its class keeps on \<^verbatim>\<open>self\<close>. The operator is shared with the caller, and
  a method may assign to its attributes: the operator's current state is part of the
  state that every method receives and returns. A method either returns a value or
  raises; what it changed before raising stays changed.
\<close>

record 'x extractor =
  operator :: pyval
  attributes :: 'x

type_synonym ('x, 'r) py_method = "'x extractor \<Rightarrow> (exn + 'r) \<times> 'x extractor"

text \<open>
  A class derived from \<^verbatim>\<open>BaseExtractor\<close> is given by the methods it defines. \<^verbatim>\<open>extract\<close> is
  abstract: \<^verbatim>\<open>ABC\<close> refuses to instantiate a class that does not define it, so the class of
  every extractor has one. The other three are inherited unless overridden (\<open>None\<close>).
  \<^verbatim>\<open>get_operator_classnames\<close> is a class method: it receives the class and no instance.
  \<^verbatim>\<open>__init__\<close> and \<^verbatim>\<open>validate\<close> are taken as inherited.
\<close>

record 'x extractor_class =
  patch_override :: "('x, unit) py_method option"
  get_operator_classnames_override :: "(exn + string list) option"
  extract_impl :: "('x, TaskMetadata option) py_method"
  extract_on_complete_override :: "(pyval \<Rightarrow> ('x, TaskMetadata option) py_method) option"

text \<open>The bodies of \<^verbatim>\<open>BaseExtractor\<close>'s own methods.\<close>

definition BaseExtractor_patch :: "('x, unit) py_method" where
  "BaseExtractor_patch self = (Inr (), self)"

definition BaseExtractor_get_operator_classnames :: "exn + string list" where
  "BaseExtractor_get_operator_classnames = Inl NotImplementedError"

text \<open>Method lookup: the class's own definition, or else the inherited one.\<close>

definition patch :: "'x extractor_class \<Rightarrow> ('x, unit) py_method" where
  "patch cls =
     (case patch_override cls of None \<Rightarrow> BaseExtractor_patch | Some m \<Rightarrow> m)"

definition get_operator_classnames :: "'x extractor_class \<Rightarrow> exn + string list" where
  "get_operator_classnames cls =
     (case get_operator_classnames_override cls of
        None \<Rightarrow> BaseExtractor_get_operator_classnames
      | Some r \<Rightarrow> r)"

text \<open>\<^verbatim>\<open>self.extract()\<close>: always the class's own method.\<close>

definition extract_method :: "'x extractor_class \<Rightarrow> ('x, TaskMetadata option) py_method" where
  "extract_method cls = extract_impl cls"

definition BaseExtractor_extract_on_complete ::
  "'x extractor_class \<Rightarrow> pyval \<Rightarrow> ('x, TaskMetadata option) py_method"
where
  "BaseExtractor_extract_on_complete cls task_instance self = extract_method cls self"

definition extract_on_complete ::
  "'x extractor_class \<Rightarrow> pyval \<Rightarrow> ('x, TaskMetadata option) py_method"
where
  "extract_on_complete cls =
     (case extract_on_complete_override cls of
        None \<Rightarrow> BaseExtractor_extract_on_complete cls
      | Some m \<Rightarrow> m)"

text \<open>
  \<^verbatim>\<open>validate\<close>: \<^verbatim>\<open>assert (self.operator.__class__.__name__ in self.get_operator_classnames())\<close>.
  Python executes \<^verbatim>\<open>assert e\<close> as \<^verbatim>\<open>if __debug__: if not e: raise AssertionError\<close>. The
  constant \<^verbatim>\<open>__debug__\<close> is true unless the interpreter runs with \<^verbatim>\<open>-O\<close> (or
  \<^verbatim>\<open>PYTHONOPTIMIZE\<close>), and it is the parameter \<open>debug\<close> here. When it is false the statement
  is not executed at all: the class names are not asked for and nothing is raised. When
  it is true the call may raise; otherwise a false condition raises \<^verbatim>\<open>AssertionError\<close>,
  with no message. Nothing is assigned.
\<close>

definition validate :: "bool \<Rightarrow> 'x extractor_class \<Rightarrow> ('x, unit) py_method" where
  "validate debug cls self =
     (if debug then
        (case get_operator_classnames cls of
           Inl e \<Rightarrow> (Inl e, self)
         | Inr names \<Rightarrow>
             if class_name (operator self) \<in> set names then (Inr (), self)
             else (Inl AssertionError, self))
      else (Inr (), self))"

text \<open>
  \<^verbatim>\<open>__init__(self, operator)\<close>: after \<^verbatim>\<open>super().__init__()\<close>, which runs before the instance
  knows its operator, the operator is stored and \<^verbatim>\<open>self.patch()\<close> is called. \<open>fresh\<close> is the
  instance's own state as object creation and the inherited constructor of
  \<^verbatim>\<open>LoggingMixin\<close> (logging infrastructure, not part of this module) leave it.
\<close>

definition BaseExtractor_init :: "'x extractor_class \<Rightarrow> 'x \<Rightarrow> pyval \<Rightarrow> (exn + unit) \<times> 'x extractor" where
  "BaseExtractor_init cls fresh op =
     (let self = \<lparr> operator = op, attributes = fresh \<rparr>
      in patch cls self)"

section \<open>Example extractors\<close>

text \<open>
  Three classes written the way the module expects its subclasses to be written; they
  serve as concrete inputs. The instance state of each is a counter of the calls that
  changed it.
\<close>

definition metadata_of :: "pyval \<Rightarrow> TaskMetadata" where
  "metadata_of op =
     \<lparr> name = PyStr (class_name op), inputs = PyList [], outputs = PyList [],
       run_facets = PyDict [], job_facets = PyDict [] \<rparr>"

definition counting_extract :: "(nat, TaskMetadata option) py_method" where
  "counting_extract self =
     (Inr (Some (metadata_of (operator self))), self\<lparr>attributes := Suc (attributes self)\<rparr>)"

text \<open>Declares two operator class names, overrides nothing else.\<close>

definition bigquery_extractor :: "nat extractor_class" where
  "bigquery_extractor =
     \<lparr> patch_override = None,
       get_operator_classnames_override =
         Some (Inr [''BigQueryOperator'', ''BigQueryExecuteQueryOperator'']),
       extract_impl = counting_extract,
       extract_on_complete_override = None \<rparr>"

text \<open>Defines \<^verbatim>\<open>extract\<close> only.\<close>

definition undeclared_extractor :: "nat extractor_class" where
  "undeclared_extractor =
     \<lparr> patch_override = None,
       get_operator_classnames_override = None,
       extract_impl = counting_extract,
       extract_on_complete_override = None \<rparr>"



text \<open>
  Declares its operator class names through an assertion of its own that fails, so
  that \<^verbatim>\<open>get_operator_classnames()\<close> raises \<^verbatim>\<open>AssertionError\<close> and returns no names.
\<close>

definition asserting_extractor :: "nat extractor_class" where
  "asserting_extractor =
     \<lparr> patch_override = None,
       get_operator_classnames_override = Some (Inl AssertionError),
       extract_impl = counting_extract,
       extract_on_complete_override = None \<rparr>"

section \<open>Argument binding\<close>

lemma bind_positional_keys:
  "bind_positional ps args = Inr b \<Longrightarrow> map fst b = take (length args) ps"
  by (induction ps args arbitrary: b rule: bind_positional.induct) (auto split: sum.splits)

lemma bind_positional_values:
  "bind_positional ps args = Inr b \<Longrightarrow> map snd b = args"
  by (induction ps args arbitrary: b rule: bind_positional.induct) (auto split: sum.splits)

lemma bind_positional_error:
  "bind_positional ps args = Inl e \<Longrightarrow> e = TypeError"
  by (induction ps args arbitrary: e rule: bind_positional.induct) (auto split: sum.splits)

lemma bind_keywords_result:
  "bind_keywords ps b kws = Inr b' \<Longrightarrow> b' = b @ kws"
  by (induction ps b kws rule: bind_keywords.induct) (auto split: if_splits)

lemma bind_keywords_error:
  "bind_keywords ps b kws = Inl e \<Longrightarrow> e = TypeError"
  by (induction ps b kws rule: bind_keywords.induct) (auto split: if_splits)

lemma bind_arguments_result:
  assumes "bind_arguments ps args kwargs = Inr b"
  shows "\<exists>pos. map fst pos = take (length args) ps \<and> map snd pos = args \<and> b = pos @ kwargs"
  using assms
  by (auto simp: bind_arguments_def split: sum.splits
      dest: bind_positional_keys bind_positional_values bind_keywords_result)

lemma bind_arguments_error:
  "bind_arguments ps args kwargs = Inl e \<Longrightarrow> e = TypeError"
  by (auto simp: bind_arguments_def split: sum.splits
      dest: bind_positional_error bind_keywords_error)

lemma omitted_unbound:
  assumes "bind_arguments TaskMetadata_params args kwargs = Inr b"
    and "\<not> supplied p args kwargs"
  shows "map_of b p = None"
proof -
  obtain pos where pos: "map fst pos = take (length args) TaskMetadata_params" "b = pos @ kwargs"
    using bind_arguments_result [OF assms(1)] by blast
  have "p \<notin> fst ` set pos"
    using assms(2) pos(1) by (metis supplied_def set_map)
  moreover have "p \<notin> fst ` set kwargs"
    using assms(2) by (simp add: supplied_def)
  ultimately show ?thesis
    by (simp add: pos(2) map_of_eq_None_iff image_Un)
qed


lemma attr_or_factory_omitted: "map_of b p = None \<Longrightarrow> attr_or_factory b p made = made"
  by (simp add: attr_or_factory_def)



lemma TaskMetadata_new_Inr:
  assumes "TaskMetadata_new args kwargs = Inr r"
  obtains b n where "bind_arguments TaskMetadata_params args kwargs = Inr b"
    and "map_of b ''name'' = Some n"
    and "r = \<lparr> name = n,
              inputs = attr_or_factory b ''inputs'' (PyList []),
              outputs = attr_or_factory b ''outputs'' (PyList []),
              run_facets = attr_or_factory b ''run_facets'' (PyDict []),
              job_facets = attr_or_factory b ''job_facets'' (PyDict []) \<rparr>"
  using assms
  by (auto simp: TaskMetadata_new_def TaskMetadata_init_def split: sum.splits option.splits)

lemmas TaskMetadata_call =
  TaskMetadata_new_def bind_arguments_def TaskMetadata_params_def
  TaskMetadata_init_def attr_or_factory_def

section \<open>Properties of TaskMetadata\<close>

text \<open>
  C2. Whatever else a call supplies, each of \<^verbatim>\<open>inputs\<close>, \<^verbatim>\<open>outputs\<close>, \<^verbatim>\<open>run_facets\<close> and
  \<^verbatim>\<open>job_facets\<close> that the call omits is, in the constructed record, the empty list
  (\<^verbatim>\<open>inputs\<close>, \<^verbatim>\<open>outputs\<close>) or the empty dictionary (\<^verbatim>\<open>run_facets\<close>, \<^verbatim>\<open>job_facets\<close>): a value, not
  \<^verbatim>\<open>None\<close> and not a missing attribute.
\<close>

theorem omitted_fields_default_empty:
  assumes "TaskMetadata_new args kwargs = Inr r"
  shows "(\<not> supplied ''inputs'' args kwargs \<longrightarrow> inputs r = PyList []) \<and>
         (\<not> supplied ''outputs'' args kwargs \<longrightarrow> outputs r = PyList []) \<and>
         (\<not> supplied ''run_facets'' args kwargs \<longrightarrow> run_facets r = PyDict []) \<and>
         (\<not> supplied ''job_facets'' args kwargs \<longrightarrow> job_facets r = PyDict [])"
proof -
  from assms obtain b n where b: "bind_arguments TaskMetadata_params args kwargs = Inr b"
    and r: "r = \<lparr> name = n,
                inputs = attr_or_factory b ''inputs'' (PyList []),
                outputs = attr_or_factory b ''outputs'' (PyList []),
                run_facets = attr_or_factory b ''run_facets'' (PyDict []),
                job_facets = attr_or_factory b ''job_facets'' (PyDict []) \<rparr>"
    by (rule TaskMetadata_new_Inr)
  show ?thesis
    by (simp add: r attr_or_factory_omitted omitted_unbound [OF b])
qed

theorem omitted_fields_default_empty_witness:
  "TaskMetadata_new [PyStr ''task''] [(''outputs'', PyList [PyObject ''Dataset'' []])] =
     Inr \<lparr> name = PyStr ''task'', inputs = PyList [], outputs = PyList [PyObject ''Dataset'' []],
           run_facets = PyDict [], job_facets = PyDict [] \<rparr> \<and>
   \<not> supplied ''inputs'' [PyStr ''task''] [(''outputs'', PyList [PyObject ''Dataset'' []])] \<and>
   supplied ''outputs'' [PyStr ''task''] [(''outputs'', PyList [PyObject ''Dataset'' []])] \<and>
   \<not> supplied ''run_facets'' [PyStr ''task''] [(''outputs'', PyList [PyObject ''Dataset'' []])] \<and>
   \<not> supplied ''job_facets'' [PyStr ''task''] [(''outputs'', PyList [PyObject ''Dataset'' []])]"
proof -
  have c: "TaskMetadata_new [PyStr ''task''] [(''outputs'', PyList [PyObject ''Dataset'' []])] =
     Inr \<lparr> name = PyStr ''task'', inputs = PyList [], outputs = PyList [PyObject ''Dataset'' []],
           run_facets = PyDict [], job_facets = PyDict [] \<rparr>"
    by (simp add: TaskMetadata_call)
  show ?thesis
    using c omitted_fields_default_empty [OF c]
    by (simp add: supplied_def TaskMetadata_params_def)
qed




text \<open>
  C8. \<^verbatim>\<open>name\<close> is the one attribute without a default: every call that omits it raises
  \<^verbatim>\<open>TypeError\<close>, while a call that gives \<^verbatim>\<open>name\<close> alone, by position or by keyword,
  succeeds with the other four attributes empty.
\<close>

theorem name_is_required:
  "(\<not> supplied ''name'' args kwargs \<longrightarrow> TaskMetadata_new args kwargs = Inl TypeError) \<and>
   TaskMetadata_new [n] [] =
     Inr \<lparr> name = n, inputs = PyList [], outputs = PyList [],
           run_facets = PyDict [], job_facets = PyDict [] \<rparr> \<and>
   TaskMetadata_new [] [(''name'', n)] =
     Inr \<lparr> name = n, inputs = PyList [], outputs = PyList [],
           run_facets = PyDict [], job_facets = PyDict [] \<rparr>"
proof (intro conjI impI)
  assume om: "\<not> supplied ''name'' args kwargs"
  show "TaskMetadata_new args kwargs = Inl TypeError"
  proof (cases "bind_arguments TaskMetadata_params args kwargs")
    case (Inl e)
    then show ?thesis
      by (simp add: TaskMetadata_new_def bind_arguments_error [OF Inl])
  next
    case (Inr b)
    then show ?thesis
      by (simp add: TaskMetadata_new_def TaskMetadata_init_def omitted_unbound [OF Inr om])
  qed
qed (simp_all add: TaskMetadata_call)

theorem name_is_required_witness:
  "\<not> supplied ''name'' [] [(''inputs'', PyList [])] \<and>
   TaskMetadata_new [] [(''inputs'', PyList [])] = Inl TypeError"
  using name_is_required [of "[]" "[(''inputs'', PyList [])]"]
  by (simp add: supplied_def)

section \<open>Properties of BaseExtractor\<close>

text \<open>
  C1, as stated: whenever \<^verbatim>\<open>get_operator_classnames()\<close> returns the names \<open>S\<close>,
  \<^verbatim>\<open>validate()\<close> fails if the class name of the bound operator is not in \<open>S\<close>. The check is
  an \<^verbatim>\<open>assert\<close>: with \<^verbatim>\<open>__debug__\<close> false, \<^verbatim>\<open>validate()\<close> returns normally for an operator whose
  class name is not among the names.
\<close>

theorem validate_without_debug_accepts_mismatch:
  "get_operator_classnames bigquery_extractor =
     Inr [''BigQueryOperator'', ''BigQueryExecuteQueryOperator''] \<and>
   class_name (PyObject ''PostgresOperator'' [])
     \<notin> set [''BigQueryOperator'', ''BigQueryExecuteQueryOperator''] \<and>
   fst (validate False bigquery_extractor
          \<lparr> operator = PyObject ''PostgresOperator'' [], attributes = 0 \<rparr>) = Inr ()"
  by (simp add: get_operator_classnames_def bigquery_extractor_def validate_def)

text \<open>
  C1, amended: for an extractor whose \<^verbatim>\<open>get_operator_classnames()\<close> returns the names \<open>S\<close>,
  and for every state of the instance: when assertions are enabled (\<^verbatim>\<open>__debug__\<close> true, the
  interpreter's default), \<^verbatim>\<open>validate()\<close> returns normally exactly when the class name of the
  bound operator is in \<open>S\<close>, and raises when it is not; when assertions are disabled,
  \<^verbatim>\<open>validate()\<close> returns normally whatever the operator.
\<close>

theorem validate_succeeds_iff_supported:
  assumes "get_operator_classnames cls = Inr S"
  shows "(fst (validate True cls self) = Inr () \<longleftrightarrow> class_name (operator self) \<in> set S) \<and>
         (class_name (operator self) \<notin> set S \<longrightarrow> (\<exists>e. fst (validate True cls self) = Inl e)) \<and>
         validate False cls self = (Inr (), self)"
  using assms by (simp add: validate_def)

theorem validate_succeeds_iff_supported_witness:
  "get_operator_classnames bigquery_extractor =
     Inr [''BigQueryOperator'', ''BigQueryExecuteQueryOperator''] \<and>
   fst (validate True bigquery_extractor
          \<lparr> operator = PyObject ''BigQueryOperator'' [], attributes = 0 \<rparr>) = Inr () \<and>
   (\<exists>e. fst (validate True bigquery_extractor
               \<lparr> operator = PyObject ''PostgresOperator'' [], attributes = 0 \<rparr>) = Inl e) \<and>
   validate False bigquery_extractor
       \<lparr> operator = PyObject ''PostgresOperator'' [], attributes = 0 \<rparr> =
     (Inr (), \<lparr> operator = PyObject ''PostgresOperator'' [], attributes = 0 \<rparr>)"
proof -
  have S: "get_operator_classnames bigquery_extractor =
     Inr [''BigQueryOperator'', ''BigQueryExecuteQueryOperator'']"
    by (simp add: get_operator_classnames_def bigquery_extractor_def)
  show ?thesis
    using S
      validate_succeeds_iff_supported
        [OF S, of "\<lparr> operator = PyObject ''BigQueryOperator'' [], attributes = 0 \<rparr>"]
      validate_succeeds_iff_supported
        [OF S, of "\<lparr> operator = PyObject ''PostgresOperator'' [], attributes = 0 \<rparr>"]
    by simp
qed

text \<open>
  C3. For a class that does not override \<^verbatim>\<open>get_operator_classnames\<close>, calling it raises
  \<^verbatim>\<open>NotImplementedError\<close>; it does not return the empty list. It is a class method, so
  the outcome depends on the class alone and on no instance or binding; called through
  an instance, as \<^verbatim>\<open>validate()\<close> calls it when its assertion is executed, it raises the
  same, whatever the operator.
\<close>

theorem unimplemented_classnames_raises:
  assumes "get_operator_classnames_override cls = None"
  shows "get_operator_classnames cls = Inl NotImplementedError \<and>
         get_operator_classnames cls \<noteq> Inr [] \<and>
         validate True cls self = (Inl NotImplementedError, self)"
proof -
  have raises: "get_operator_classnames cls = Inl NotImplementedError"
    using assms
    by (simp add: get_operator_classnames_def BaseExtractor_get_operator_classnames_def)
  then show ?thesis
    by (simp add: validate_def)
qed

theorem unimplemented_classnames_raises_witness:
  "get_operator_classnames_override undeclared_extractor = None \<and>
   get_operator_classnames undeclared_extractor = Inl NotImplementedError \<and>
   get_operator_classnames undeclared_extractor \<noteq> Inr [] \<and>
   validate True undeclared_extractor
       \<lparr> operator = PyObject ''BashOperator'' [], attributes = 0 \<rparr> =
     (Inl NotImplementedError, \<lparr> operator = PyObject ''BashOperator'' [], attributes = 0 \<rparr>)"
proof -
  have h: "get_operator_classnames_override undeclared_extractor = None"
    by (simp add: undeclared_extractor_def)
  show ?thesis
    using h unimplemented_classnames_raises
      [OF h, of "\<lparr> operator = PyObject ''BashOperator'' [], attributes = 0 \<rparr>"]
    by simp
qed

text \<open>
  C4. For a class that does not override \<^verbatim>\<open>extract_on_complete\<close>, the call
  \<^verbatim>\<open>extract_on_complete(task_instance)\<close> has the outcome of \<^verbatim>\<open>extract()\<close> on the same instance
  in the same state: the same value or exception, and the same state afterwards.
\<close>

theorem extract_on_complete_delegates:
  assumes "extract_on_complete_override cls = None"
  shows "extract_on_complete cls task_instance self = extract_method cls self"
  using assms by (simp add: extract_on_complete_def BaseExtractor_extract_on_complete_def)

theorem extract_on_complete_delegates_witness:
  "extract_on_complete_override bigquery_extractor = None \<and>
   extract_on_complete bigquery_extractor
     (PyObject ''TaskInstance'' [(''state'', PyStr ''success'')])
     \<lparr> operator = PyObject ''BigQueryOperator'' [], attributes = 0 \<rparr> =
   (Inr (Some (metadata_of (PyObject ''BigQueryOperator'' []))),
    \<lparr> operator = PyObject ''BigQueryOperator'' [], attributes = 1 \<rparr>)"
proof -
  have h: "extract_on_complete_override bigquery_extractor = None"
    by (simp add: bigquery_extractor_def)
  show ?thesis
    using h extract_on_complete_delegates
      [OF h, of "PyObject ''TaskInstance'' [(''state'', PyStr ''success'')]"
         "\<lparr> operator = PyObject ''BigQueryOperator'' [], attributes = 0 \<rparr>"]
    by (simp add: extract_method_def bigquery_extractor_def counting_extract_def)
qed

text \<open>
  C5, as stated: a mismatch reaches the caller as a failure of a type of its own, that
  tells a mismatched extractor from any other failure, and is never swallowed. What
  \<^verbatim>\<open>validate()\<close> raises on a mismatch is a bare \<^verbatim>\<open>AssertionError\<close>: an extractor whose
  \<^verbatim>\<open>get_operator_classnames()\<close> fails an assertion of its own, and so returns no names to
  compare with, gives the caller the very same outcome. And with \<^verbatim>\<open>__debug__\<close> false the
  mismatch is not reported at all.
\<close>

theorem mismatch_is_a_bare_AssertionError:
  "validate True bigquery_extractor \<lparr> operator = PyObject ''MySqlOperator'' [], attributes = 0 \<rparr> =
     (Inl AssertionError, \<lparr> operator = PyObject ''MySqlOperator'' [], attributes = 0 \<rparr>) \<and>
   get_operator_classnames asserting_extractor = Inl AssertionError \<and>
   validate True asserting_extractor \<lparr> operator = PyObject ''MySqlOperator'' [], attributes = 0 \<rparr> =
     (Inl AssertionError, \<lparr> operator = PyObject ''MySqlOperator'' [], attributes = 0 \<rparr>) \<and>
   validate False bigquery_extractor \<lparr> operator = PyObject ''MySqlOperator'' [], attributes = 0 \<rparr> =
     (Inr (), \<lparr> operator = PyObject ''MySqlOperator'' [], attributes = 0 \<rparr>)"
  by (simp add: get_operator_classnames_def bigquery_extractor_def asserting_extractor_def
      validate_def)

text \<open>
  C5, amended: when assertions are enabled and the class name of the bound operator is
  not among the names that \<^verbatim>\<open>get_operator_classnames()\<close> returns, \<^verbatim>\<open>validate()\<close> does not return:
  it raises to its caller an exception of the built-in class \<^verbatim>\<open>AssertionError\<close>, without a
  message, and leaves the instance as it was. That exception is not particular to a
  mismatch: \<^verbatim>\<open>validate()\<close> raises \<^verbatim>\<open>AssertionError\<close> exactly when there is a mismatch or
  \<^verbatim>\<open>get_operator_classnames()\<close> itself raises \<^verbatim>\<open>AssertionError\<close>; it does differ from the
  \<^verbatim>\<open>NotImplementedError\<close> of an extractor that declares no names.
\<close>

theorem validate_mismatch_raises_AssertionError:
  "(get_operator_classnames cls = Inr S \<and> class_name (operator self) \<notin> set S \<longrightarrow>
      validate True cls self = (Inl AssertionError, self)) \<and>
   (fst (validate True cls self) = Inl AssertionError \<longleftrightarrow>
      get_operator_classnames cls = Inl AssertionError \<or>
      (\<exists>names. get_operator_classnames cls = Inr names \<and>
         class_name (operator self) \<notin> set names)) \<and>
   (get_operator_classnames_override cls = None \<longrightarrow>
      fst (validate True cls self) \<noteq> Inl AssertionError)"
proof (intro conjI impI)
  assume "get_operator_classnames cls = Inr S \<and> class_name (operator self) \<notin> set S"
  then show "validate True cls self = (Inl AssertionError, self)"
    by (simp add: validate_def)
next
  show "fst (validate True cls self) = Inl AssertionError \<longleftrightarrow>
      get_operator_classnames cls = Inl AssertionError \<or>
      (\<exists>names. get_operator_classnames cls = Inr names \<and>
         class_name (operator self) \<notin> set names)"
    by (cases "get_operator_classnames cls") (simp_all add: validate_def)
next
  assume "get_operator_classnames_override cls = None"
  then have "get_operator_classnames cls = Inl NotImplementedError"
    by (simp add: get_operator_classnames_def BaseExtractor_get_operator_classnames_def)
  then show "fst (validate True cls self) \<noteq> Inl AssertionError"
    by (simp add: validate_def)
qed

theorem validate_mismatch_raises_AssertionError_witness:
  "get_operator_classnames bigquery_extractor =
     Inr [''BigQueryOperator'', ''BigQueryExecuteQueryOperator''] \<and>
   class_name (operator \<lparr> operator = PyObject ''PostgresOperator'' [], attributes = 0::nat \<rparr>)
     \<notin> set [''BigQueryOperator'', ''BigQueryExecuteQueryOperator''] \<and>
   validate True bigquery_extractor
       \<lparr> operator = PyObject ''PostgresOperator'' [], attributes = 0 \<rparr> =
     (Inl AssertionError, \<lparr> operator = PyObject ''PostgresOperator'' [], attributes = 0 \<rparr>) \<and>
   get_operator_classnames_override undeclared_extractor = None \<and>
   fst (validate True undeclared_extractor
          \<lparr> operator = PyObject ''PostgresOperator'' [], attributes = 0 \<rparr>) \<noteq> Inl AssertionError"
proof -
  have S: "get_operator_classnames bigquery_extractor =
     Inr [''BigQueryOperator'', ''BigQueryExecuteQueryOperator'']"
    by (simp add: get_operator_classnames_def bigquery_extractor_def)
  have m: "class_name (operator \<lparr> operator = PyObject ''PostgresOperator'' [], attributes = 0::nat \<rparr>)
     \<notin> set [''BigQueryOperator'', ''BigQueryExecuteQueryOperator'']"
    by simp
  have u: "get_operator_classnames_override undeclared_extractor = None"
    by (simp add: undeclared_extractor_def)
  have r: "validate True bigquery_extractor
       \<lparr> operator = PyObject ''PostgresOperator'' [], attributes = 0 \<rparr> =
     (Inl AssertionError, \<lparr> operator = PyObject ''PostgresOperator'' [], attributes = 0 \<rparr>)"
    using validate_mismatch_raises_AssertionError
      [of bigquery_extractor "[''BigQueryOperator'', ''BigQueryExecuteQueryOperator'']"
         "\<lparr> operator = PyObject ''PostgresOperator'' [], attributes = 0 \<rparr>"] S m
    by blast
  have d: "fst (validate True undeclared_extractor
          \<lparr> operator = PyObject ''PostgresOperator'' [], attributes = 0 \<rparr>) \<noteq> Inl AssertionError"
    using validate_mismatch_raises_AssertionError
      [of undeclared_extractor _
         "\<lparr> operator = PyObject ''PostgresOperator'' [], attributes = 0 \<rparr>"] u
    by blast
  show ?thesis
    using S m u r d by blast
qed

text \<open>
  C9. For a class that does not override \<^verbatim>\<open>extract_on_complete\<close>, the outcome of
  \<^verbatim>\<open>extract_on_complete\<close> on an instance does not depend on the \<^verbatim>\<open>task_instance\<close> argument.
\<close>

theorem extract_on_complete_ignores_argument:
  assumes "extract_on_complete_override cls = None"
  shows "extract_on_complete cls t1 self = extract_on_complete cls t2 self"
  using assms by (simp add: extract_on_complete_def BaseExtractor_extract_on_complete_def)

theorem extract_on_complete_ignores_argument_witness:
  "extract_on_complete_override bigquery_extractor = None \<and>
   extract_on_complete bigquery_extractor
     (PyObject ''TaskInstance'' [(''state'', PyStr ''success'')])
     \<lparr> operator = PyObject ''BigQueryOperator'' [], attributes = 0 \<rparr> =
   extract_on_complete bigquery_extractor PyNone
     \<lparr> operator = PyObject ''BigQueryOperator'' [], attributes = 0 \<rparr>"
proof -
  have h: "extract_on_complete_override bigquery_extractor = None"
    by (simp add: bigquery_extractor_def)
  show ?thesis
    using h extract_on_complete_ignores_argument
      [OF h, of "PyObject ''TaskInstance'' [(''state'', PyStr ''success'')]"
         "\<lparr> operator = PyObject ''BigQueryOperator'' [], attributes = 0 \<rparr>" PyNone]
    by simp
qed

text \<open>
  C10. For a class that does not override \<^verbatim>\<open>patch\<close>, \<^verbatim>\<open>patch()\<close> returns without changing
  anything, and construction returns an instance whose \<^verbatim>\<open>operator\<close> is the object passed,
  in the state it was passed in; the rest of the instance is as its creation left it.
\<close>

theorem base_patch_is_noop:
  assumes "patch_override cls = None"
  shows "patch cls self = (Inr (), self) \<and>
         BaseExtractor_init cls fresh op = (Inr (), \<lparr> operator = op, attributes = fresh \<rparr>)"
  using assms by (simp add: patch_def BaseExtractor_patch_def BaseExtractor_init_def)

theorem base_patch_is_noop_witness:
  "patch_override bigquery_extractor = None \<and>
   BaseExtractor_init bigquery_extractor 0
       (PyObject ''BigQueryOperator'' [(''sql'', PyStr ''SELECT 1'')]) =
     (Inr (), \<lparr> operator = PyObject ''BigQueryOperator'' [(''sql'', PyStr ''SELECT 1'')],
               attributes = 0 \<rparr>)"
proof -
  have h: "patch_override bigquery_extractor = None"
    by (simp add: bigquery_extractor_def)
  show ?thesis
    using h base_patch_is_noop
      [OF h, of _ 0 "PyObject ''BigQueryOperator'' [(''sql'', PyStr ''SELECT 1'')]"]
    by simp
qed




end
